theory Spec2Isabelle
  imports Main
begin

section \<open>The basic-block map of the knowledge base\<close>

text \<open>
  A shallow embedding of \<^verbatim>\<open>angr/knowledge_plugins/basic_blocks.py\<close>:
  \<^verbatim>\<open>BlockItem\<close>, the two trimming hooks of \<^verbatim>\<open>BlockMapping\<close> and
  \<^verbatim>\<open>BasicBlocksPlugin.add_block\<close>. Addresses and sizes are Python integers
  (\<open>int\<close>), the overlap mode is a Python string, the payload (the IRSB) is a type
  parameter. Exceptions are values of the type \<open>error\<close>; the sequence of stored
  records is passed in and returned explicitly.
\<close>

subsection \<open>Block records\<close>

text \<open>
  \<^verbatim>\<open>BlockItem\<close> is a \<^verbatim>\<open>RangeItem\<close> (attributes \<^verbatim>\<open>start\<close>, \<^verbatim>\<open>end\<close>,
  \<^verbatim>\<open>value\<close>) with the extra attribute \<^verbatim>\<open>second_chance\<close>. The attribute
  \<^verbatim>\<open>end\<close> is the field \<open>stop\<close> here and \<^verbatim>\<open>value\<close> is the field \<open>val\<close>, both
  names being reserved words.
\<close>

record 'v BlockItem =
  start :: int
  stop :: int
  val :: 'v
  second_chance :: bool

text \<open>\<^verbatim>\<open>BlockMapping._make_item\<close> with \<^verbatim>\<open>BlockItem.__init__\<close>: the flag starts cleared.\<close>

definition make_item :: "int \<Rightarrow> int \<Rightarrow> 'v \<Rightarrow> 'v BlockItem" where
  "make_item s e v = \<lparr>start = s, stop = e, val = v, second_chance = False\<rparr>"

text \<open>The property \<^verbatim>\<open>BlockItem.addr\<close>.\<close>

definition addr :: "'v BlockItem \<Rightarrow> int" where
  "addr b = start b"

text \<open>
  Two half-open ranges \<open>[start, stop)\<close> share an address iff the larger start lies
  below the smaller stop.
\<close>

definition intersects :: "'v BlockItem \<Rightarrow> 'v BlockItem \<Rightarrow> bool" where
  "intersects a b = (max (start a) (start b) < min (stop a) (stop b))"

text \<open>Pairwise disjointness of a sequence of records: every two positions \<open>i < j\<close>.\<close>

definition pairwise_disjoint :: "'v BlockItem list \<Rightarrow> bool" where
  "pairwise_disjoint xs = sorted_wrt (\<lambda>a b. \<not> intersects a b) xs"

subsection \<open>Object references, exceptions and results\<close>

text \<open>
  The records are Python objects, and \<^verbatim>\<open>add_block\<close> and the overlap handler mutate
  them through the references that the exception \<^verbatim>\<open>OverlappedBlocks\<close> carries. A
  reference is either to a record that is not in the sequence (\<open>Fresh\<close>, held by
  value) or to the record at a position of the sequence (\<open>Stored\<close>).
\<close>

datatype 'v obj = Fresh "'v BlockItem" | Stored nat

fun deref :: "'v BlockItem list \<Rightarrow> 'v obj \<Rightarrow> 'v BlockItem" where
  "deref blocks (Fresh b) = b"
| "deref blocks (Stored i) = blocks ! i"

fun assign :: "'v BlockItem list \<Rightarrow> 'v obj \<Rightarrow> 'v BlockItem \<Rightarrow> 'v BlockItem list" where
  "assign blocks (Fresh b) b' = blocks"
| "assign blocks (Stored i) b' = blocks[i := b']"

text \<open>
  The exceptions that leave \<^verbatim>\<open>add_block\<close>: the \<^verbatim>\<open>ValueError\<close> of the empty block
  (the spec's InvalidRange), \<^verbatim>\<open>OverlappedBlocks\<close> with its two blocks (the spec's
  Conflict), the \<^verbatim>\<open>TypeError\<close> of calling the handler \<^verbatim>\<open>None\<close> and the
  \<^verbatim>\<open>ValueError\<close> of an unknown mode (both the spec's InvalidArgument).
\<close>

datatype 'v error =
    ValueError_empty
  | OverlappedBlocks "'v obj" "'v obj"
  | TypeError_not_callable
  | ValueError_unknown_mode string

text \<open>
  What the slice assignment \<^verbatim>\<open>self._blocks[addr:addr + size] = irsb\<close> does: it
  returns with a new sequence, or it raises \<^verbatim>\<open>OverlappedBlocks(this, other)\<close> and
  leaves some sequence behind.
\<close>

datatype 'v placed =
    Placed "'v BlockItem list"
  | Overlap "'v obj" "'v obj" "'v BlockItem list"

text \<open>What \<^verbatim>\<open>add_block\<close> does: it returns, or it raises; both with the sequence it leaves.\<close>

datatype 'v result =
    Done "'v BlockItem list"
  | Failed "'v error" "'v BlockItem list"

text \<open>An exception of the retried slice assignment is not caught: it leaves \<^verbatim>\<open>add_block\<close>.\<close>

fun uncaught :: "'v placed \<Rightarrow> 'v result" where
  "uncaught (Placed blocks) = Done blocks"
| "uncaught (Overlap this_block other_block blocks) =
     Failed (OverlappedBlocks this_block other_block) blocks"

text \<open>
  An overlap handler is a Python callable \<^verbatim>\<open>(this_block, other_block)\<close> (the keyword
  arguments are part of the closure) that mutates the two records and returns: a function
  from the two records to what they hold afterwards.
\<close>

type_synonym 'v handler = "'v BlockItem \<Rightarrow> 'v BlockItem \<Rightarrow> 'v BlockItem \<times> 'v BlockItem"

definition call_handler ::
  "'v handler \<Rightarrow> 'v BlockItem list \<Rightarrow> 'v obj \<Rightarrow> 'v obj \<Rightarrow> 'v BlockItem list" where
  "call_handler h blocks this_block other_block =
     (case h (deref blocks this_block) (deref blocks other_block) of
        (this', other') \<Rightarrow> assign (assign blocks this_block this') other_block other')"

subsection \<open>\<^verbatim>\<open>BasicBlocksPlugin.add_block\<close>\<close>

text \<open>
  The class \<^verbatim>\<open>RangeDict\<close> is imported from the package \<^verbatim>\<open>rangedict\<close>, so the slice
  assignment \<^verbatim>\<open>self._blocks[addr:addr + size] = irsb\<close> of \<^verbatim>\<open>BlockMapping\<close> is the
  parameter \<open>setitem\<close> of \<open>add_block\<close>: a function of the sequence, the two bounds of
  the slice and the payload. Under the trim mode the source sets
  \<^verbatim>\<open>this_block.second_chance = True\<close> on the block that the exception names first, an
  assignment through the reference, and repeats the same slice assignment. A mark on a
  block that is not in the sequence changes nothing that the retry is given.
\<close>

type_synonym 'v setitem = "'v BlockItem list \<Rightarrow> int \<Rightarrow> int \<Rightarrow> 'v \<Rightarrow> 'v placed"

definition add_block ::
  "'v setitem \<Rightarrow> 'v BlockItem list \<Rightarrow> int \<Rightarrow> int \<Rightarrow> 'v \<Rightarrow> string \<Rightarrow> 'v handler option
     \<Rightarrow> 'v result" where
  "add_block setitem blocks a sz irsb overlap_mode overlap_handler =
     (if sz = 0 then Failed ValueError_empty blocks
      else
        case setitem blocks a (a + sz) irsb of
          Placed blocks' \<Rightarrow> Done blocks'
        | Overlap this_block other_block blocks' \<Rightarrow>
            if overlap_mode = ''handle'' then
              (case (if addr (deref blocks' this_block) \<noteq> a
                     then (other_block, this_block) else (this_block, other_block)) of
                 (this_block, other_block) \<Rightarrow>
                   (case overlap_handler of
                      None \<Rightarrow> Failed TypeError_not_callable blocks'
                    | Some h \<Rightarrow> Done (call_handler h blocks' this_block other_block)))
            else if overlap_mode = ''trim'' then
              uncaught (setitem
                (assign blocks' this_block
                   ((deref blocks' this_block)\<lparr>second_chance := True\<rparr>))
                a (a + sz) irsb)
            else if overlap_mode = ''raise'' then
              Failed (OverlappedBlocks this_block other_block) blocks'
            else Failed (ValueError_unknown_mode overlap_mode) blocks')"

subsection \<open>The trimming hooks of \<^verbatim>\<open>BlockMapping\<close> and the placement of \<^verbatim>\<open>RangeDict\<close>\<close>

text \<open>
  Modelled from the spec: \<^verbatim>\<open>RangeDict._trim_left\<close>, the base-class hook that
  \<^verbatim>\<open>BlockMapping._trim_left\<close> delegates to, is not in the repository. Following the
  spec (data model: on trim the old record is retained with a shrunk range; trim
  determinism: the later insertion wins the overlapping region), it cuts the left
  neighbour back to the start of the item under placement.
\<close>

definition RangeDict_trim_left ::
  "'v BlockItem \<Rightarrow> 'v BlockItem \<Rightarrow> 'v BlockItem \<times> 'v BlockItem" where
  "RangeDict_trim_left this_item left_item =
     (this_item,
      if start this_item < stop left_item then left_item\<lparr>stop := start this_item\<rparr>
      else left_item)"

text \<open>
  Modelled from the spec: \<^verbatim>\<open>RangeDict._trim_right\<close>, the base-class hook that
  \<^verbatim>\<open>BlockMapping._trim_right\<close> delegates to, is not in the repository. Following the
  spec (the placement logic is permitted to shrink the new record's boundary against the
  conflicting neighbour), it cuts the item under placement back to the start of the right
  neighbour.
\<close>

definition RangeDict_trim_right ::
  "'v BlockItem \<Rightarrow> 'v BlockItem \<Rightarrow> 'v BlockItem \<times> 'v BlockItem" where
  "RangeDict_trim_right this_item right_item =
     (if start right_item < stop this_item then this_item\<lparr>stop := start right_item\<rparr>
      else this_item,
      right_item)"

text \<open>
  \<^verbatim>\<open>BlockMapping._trim_left\<close> and \<^verbatim>\<open>BlockMapping._trim_right\<close>, as in the source:
  an overlap without the flag raises \<^verbatim>\<open>OverlappedBlocks\<close> (\<open>Inl\<close>, with the two
  items); otherwise the flag is cleared and the base class trims.
\<close>

definition trim_left ::
  "'v BlockItem \<Rightarrow> 'v BlockItem
     \<Rightarrow> ('v BlockItem \<times> 'v BlockItem) + ('v BlockItem \<times> 'v BlockItem)" where
  "trim_left this_item left_item =
     (if start this_item < stop left_item \<and> \<not> second_chance this_item
      then Inl (this_item, left_item)
      else Inr (RangeDict_trim_left (this_item\<lparr>second_chance := False\<rparr>) left_item))"

definition trim_right ::
  "'v BlockItem \<Rightarrow> 'v BlockItem
     \<Rightarrow> ('v BlockItem \<times> 'v BlockItem) + ('v BlockItem \<times> 'v BlockItem)" where
  "trim_right this_item right_item =
     (if stop this_item > start right_item \<and> \<not> second_chance this_item
      then Inl (this_item, right_item)
      else Inr (RangeDict_trim_right (this_item\<lparr>second_chance := False\<rparr>) right_item))"

text \<open>
  Modelled from the spec: the first half of \<^verbatim>\<open>RangeDict.__setitem__\<close>, the
  neighbour-aware insertion that calls the hooks, which is not in the repository. The item
  under placement is offered to its left neighbour, the last of the records \<open>ls\<close> that
  start at or before it, through \<^verbatim>\<open>_trim_left\<close>; a left neighbour that the trim has
  cut to zero length is removed from the sequence (spec, lifecycle of a record).
\<close>

definition place_left ::
  "'v BlockItem \<Rightarrow> 'v BlockItem list
     \<Rightarrow> ('v BlockItem \<times> 'v BlockItem) + ('v BlockItem \<times> 'v BlockItem list)" where
  "place_left this_item ls =
     (if ls = [] then Inr (this_item, [])
      else
        case trim_left this_item (last ls) of
          Inl c \<Rightarrow> Inl c
        | Inr (this', left') \<Rightarrow>
            Inr (this',
                 butlast ls @
                   (if start this_item < stop (last ls) \<and> stop left' \<le> start left'
                    then [] else [left'])))"

text \<open>
  Modelled from the spec: the second half of \<^verbatim>\<open>RangeDict.__setitem__\<close>, which is not
  in the repository. The item under placement is offered to its right neighbour, the first
  of the records \<open>rs\<close> that start after it, through \<^verbatim>\<open>_trim_right\<close>.
\<close>

definition place_right ::
  "'v BlockItem \<Rightarrow> 'v BlockItem list
     \<Rightarrow> ('v BlockItem \<times> 'v BlockItem) + ('v BlockItem \<times> 'v BlockItem list)" where
  "place_right this_item rs =
     (case rs of
        [] \<Rightarrow> Inr (this_item, [])
      | right_item # rs' \<Rightarrow>
          (case trim_right this_item right_item of
             Inl c \<Rightarrow> Inl c
           | Inr (this', right') \<Rightarrow> Inr (this', right' # rs')))"

text \<open>
  Modelled from the spec: \<^verbatim>\<open>RangeDict.__setitem__\<close>, which is not in the
  repository. Following the spec, the sequence is kept in ascending address order; the
  item that \<^verbatim>\<open>_make_item\<close> makes for the slice (its flag cleared, as
  \<^verbatim>\<open>BlockItem.__init__\<close> leaves it) is offered to its left and then to its right
  neighbour; an overlap that a hook raises aborts the insertion with no mutation of the
  sequence and reports the attempted item and the conflicting neighbour (spec, overlap
  signalling); otherwise the item is inserted between the two (\<^verbatim>\<open>_should_merge\<close> is
  constantly false: no records are merged).
\<close>

definition RangeDict_setitem :: "'v setitem" where
  "RangeDict_setitem blocks s e v =
     (let this_item = make_item s e v;
          ls = takeWhile (\<lambda>b. start b \<le> s) blocks;
          rs = dropWhile (\<lambda>b. start b \<le> s) blocks
      in case place_left this_item ls of
           Inl c \<Rightarrow> Overlap (Fresh this_item) (Stored (length ls - 1)) blocks
         | Inr (this1, ls') \<Rightarrow>
             (case place_right this1 rs of
                Inl c \<Rightarrow> Overlap (Fresh this1) (Stored (length ls)) blocks
              | Inr (this2, rs') \<Rightarrow> Placed (ls' @ this2 # rs')))"

text \<open>
  An insertion primitive that reports the two blocks of an overlap in the other order,
  the stored neighbour first: the order that the swap in the handle branch of
  \<^verbatim>\<open>add_block\<close> provides for.
\<close>

definition stored_first :: "'v setitem \<Rightarrow> 'v setitem" where
  "stored_first setitem blocks s e v =
     (case setitem blocks s e v of
        Placed blocks' \<Rightarrow> Placed blocks'
      | Overlap this_block other_block blocks' \<Rightarrow> Overlap other_block this_block blocks')"

subsection \<open>Overlap handlers and sequences of calls\<close>

text \<open>
  The handler of \<^verbatim>\<open>tests/test_kb_bbl.py\<close> (\<^verbatim>\<open>_ovarlap_handler\<close>):
  \<^verbatim>\<open>other_item.end = this_item.start\<close>.
\<close>

definition ovarlap_handler :: "'v handler" where
  "ovarlap_handler this_item other_item = (this_item, other_item\<lparr>stop := start this_item\<rparr>)"

text \<open>A handler that moves the end of the other block to a fixed address.\<close>

definition careless_handler :: "int \<Rightarrow> 'v handler" where
  "careless_handler e this_item other_item = (this_item, other_item\<lparr>stop := e\<rparr>)"

text \<open>
  The pairs that the hooks report: a new block with a left neighbour that it starts
  inside, or with a right neighbour that starts inside it.
\<close>

definition reported :: "'v BlockItem \<Rightarrow> 'v BlockItem \<Rightarrow> bool" where
  "reported this_item other_item =
     (start other_item \<le> start this_item \<and> start this_item < stop other_item
      \<or> start this_item < start other_item \<and> start other_item < stop this_item)"


text \<open>
  A sequence of \<^verbatim>\<open>add_block\<close> calls on the block map, each with its address, size,
  payload, mode and handler; the run stops at the first call that raises.
\<close>

datatype 'v call = Call int int 'v string "'v handler option"



fun add_blocks :: "'v call list \<Rightarrow> 'v BlockItem list \<Rightarrow> 'v result" where
  "add_blocks [] blocks = Done blocks"
| "add_blocks (Call a sz irsb overlap_mode overlap_handler # calls) blocks =
     (case add_block RangeDict_setitem blocks a sz irsb overlap_mode overlap_handler of
        Done blocks' \<Rightarrow> add_blocks calls blocks'
      | Failed e blocks' \<Rightarrow> Failed e blocks')"

subsection \<open>The order invariant of the sequence\<close>



section \<open>Auxiliary facts\<close>

lemmas model_defs = add_block_def RangeDict_setitem_def place_left_def place_right_def
  make_item_def trim_left_def trim_right_def RangeDict_trim_left_def RangeDict_trim_right_def
  call_handler_def addr_def

lemma place_left_new:
  "place_left (make_item s e v) ls =
     (if ls \<noteq> [] \<and> s < stop (last ls) then Inl (make_item s e v, last ls)
      else Inr (make_item s e v, ls))"
  by (simp add: place_left_def trim_left_def RangeDict_trim_left_def make_item_def)

lemma place_right_new:
  "place_right (make_item s e v) rs =
     (if rs \<noteq> [] \<and> start (hd rs) < e then Inl (make_item s e v, hd rs)
      else Inr (make_item s e v, rs))"
  by (cases rs) (simp_all add: place_right_def trim_right_def RangeDict_trim_right_def
      make_item_def)

lemma RangeDict_setitem_eq:
  "RangeDict_setitem blocks s e v =
     (if takeWhile (\<lambda>b. start b \<le> s) blocks \<noteq> []
         \<and> s < stop (last (takeWhile (\<lambda>b. start b \<le> s) blocks))
      then Overlap (Fresh (make_item s e v))
             (Stored (length (takeWhile (\<lambda>b. start b \<le> s) blocks) - 1)) blocks
      else if dropWhile (\<lambda>b. start b \<le> s) blocks \<noteq> []
         \<and> start (hd (dropWhile (\<lambda>b. start b \<le> s) blocks)) < e
      then Overlap (Fresh (make_item s e v))
             (Stored (length (takeWhile (\<lambda>b. start b \<le> s) blocks))) blocks
      else Placed (takeWhile (\<lambda>b. start b \<le> s) blocks @ make_item s e v
                     # dropWhile (\<lambda>b. start b \<le> s) blocks))"
  by (simp add: RangeDict_setitem_def Let_def place_left_new place_right_new
      del: takeWhile_dropWhile_id)

lemma last_takeWhile_nth:
  assumes "takeWhile P xs \<noteq> []"
  shows "last (takeWhile P xs) = xs ! (length (takeWhile P xs) - 1)"
    and "length (takeWhile P xs) - 1 < length xs"
    and "P (xs ! (length (takeWhile P xs) - 1))"
proof -
  let ?n = "length (takeWhile P xs)"
  from assms have n: "?n - 1 < ?n" by simp
  have "last (takeWhile P xs) = takeWhile P xs ! (?n - 1)"
    using assms by (rule last_conv_nth)
  also have "\<dots> = xs ! (?n - 1)" using n by (rule takeWhile_nth)
  finally show "last (takeWhile P xs) = xs ! (?n - 1)" .
  show "?n - 1 < length xs" using n length_takeWhile_le[of P xs] by linarith
  from n have "takeWhile P xs ! (?n - 1) \<in> set (takeWhile P xs)" by (rule nth_mem)
  then have "P (takeWhile P xs ! (?n - 1))" by (rule set_takeWhileD[THEN conjunct2])
  then show "P (xs ! (?n - 1))" using takeWhile_nth[OF n] by simp
qed

lemma hd_dropWhile_nth:
  assumes "dropWhile P xs \<noteq> []"
  shows "hd (dropWhile P xs) = xs ! length (takeWhile P xs)"
    and "length (takeWhile P xs) < length xs"
    and "\<not> P (xs ! length (takeWhile P xs))"
proof -
  show len: "length (takeWhile P xs) < length xs"
    using assms by (induction xs) (auto split: if_splits)
  have "dropWhile P xs = drop (length (takeWhile P xs)) xs" by (rule dropWhile_eq_drop)
  then show "hd (dropWhile P xs) = xs ! length (takeWhile P xs)"
    using len by (simp add: hd_drop_conv_nth)
  from len show "\<not> P (xs ! length (takeWhile P xs))" by (rule nth_length_takeWhile)
qed

lemma setitem_Overlap:
  assumes "RangeDict_setitem blocks s e v = Overlap t other blocks'"
  shows "blocks' = blocks
       \<and> t = Fresh (make_item s e v)
       \<and> (\<exists>i<length blocks. other = Stored i \<and> reported (make_item s e v) (blocks ! i))"
proof -
  let ?P = "\<lambda>b. start b \<le> s"
  let ?ls = "takeWhile ?P blocks" and ?rs = "dropWhile ?P blocks"
  have st: "start (make_item s e v) = s" "stop (make_item s e v) = e"
    by (simp_all add: make_item_def)
  consider (left) "?ls \<noteq> []" "s < stop (last ?ls)"
    | (right) "\<not> (?ls \<noteq> [] \<and> s < stop (last ?ls))" "?rs \<noteq> []" "start (hd ?rs) < e"
    | (none) "\<not> (?ls \<noteq> [] \<and> s < stop (last ?ls))" "\<not> (?rs \<noteq> [] \<and> start (hd ?rs) < e)"
    by blast
  then show ?thesis
  proof cases
    case left
    note N = last_takeWhile_nth[of ?P blocks, OF left(1)]
    from left N have "reported (make_item s e v) (blocks ! (length ?ls - 1))"
      by (simp add: reported_def st)
    moreover from assms left have "blocks' = blocks" "t = Fresh (make_item s e v)"
      "other = Stored (length ?ls - 1)"
      by (auto simp add: RangeDict_setitem_eq)
    ultimately show ?thesis using N(2) by blast
  next
    case right
    note N = hd_dropWhile_nth[of ?P blocks, OF right(2)]
    from right N have "reported (make_item s e v) (blocks ! length ?ls)"
      by (simp add: reported_def st)
    moreover from assms right have "blocks' = blocks" "t = Fresh (make_item s e v)"
      "other = Stored (length ?ls)"
      by (auto simp add: RangeDict_setitem_eq)
    ultimately show ?thesis using N(2) by blast
  next
    case none
    have "RangeDict_setitem blocks s e v = Placed (?ls @ make_item s e v # ?rs)"
      by (subst RangeDict_setitem_eq) (simp only: none if_False)
    with assms show ?thesis by simp
  qed
qed











lemma add_block_handle_eq:
  assumes "sz \<noteq> 0"
    and "RangeDict_setitem blocks a (a + sz) irsb = Overlap this_block other_block blocks'"
  shows "\<exists>i<length blocks. other_block = Stored i
         \<and> reported (make_item a (a + sz) irsb) (blocks ! i)
         \<and> add_block RangeDict_setitem blocks a sz irsb ''handle'' (Some h)
             = Done (blocks[i := snd (h (make_item a (a + sz) irsb) (blocks ! i))])"
proof -
  from setitem_Overlap[OF assms(2)]
  obtain i where o: "blocks' = blocks" "this_block = Fresh (make_item a (a + sz) irsb)"
    "other_block = Stored i" "i < length blocks"
    "reported (make_item a (a + sz) irsb) (blocks ! i)" by blast
  have "addr (deref blocks this_block) = a" by (simp add: o addr_def make_item_def)
  with assms o have "add_block RangeDict_setitem blocks a sz irsb ''handle'' (Some h)
             = Done (blocks[i := snd (h (make_item a (a + sz) irsb) (blocks ! i))])"
    by (simp add: add_block_def call_handler_def split: prod.splits)
  with o show ?thesis by blast
qed




lemma add_block_failure_keeps_blocks:
  assumes "add_block RangeDict_setitem blocks a sz irsb overlap_mode overlap_handler
             = Failed e blocks'"
  shows "blocks' = blocks"
proof (cases "sz = 0")
  case True
  with assms show ?thesis by (simp add: add_block_def)
next
  case nz: False
  show ?thesis
  proof (cases "RangeDict_setitem blocks a (a + sz) irsb")
    case (Placed ys)
    with assms nz show ?thesis by (simp add: add_block_def)
  next
    case (Overlap t other ys)
    from setitem_Overlap[OF Overlap]
    have o: "ys = blocks" "t = Fresh (make_item a (a + sz) irsb)" by simp_all
    with assms nz Overlap show ?thesis
      by (auto simp add: add_block_def split: if_splits option.splits)
  qed
qed


section \<open>Properties of the block map\<close>

subsection \<open>Disjointness of the stored ranges\<close>




subsection \<open>The handle mode\<close>

text \<open>
  C2, as amended: under the handle mode, whenever the insertion hits an intersection and
  the handler returns, \<^verbatim>\<open>add_block\<close> returns successfully, and the sequence it leaves is
  the one before the call with the conflicting record as the handler left it; no check of
  disjointness is made and no \<^verbatim>\<open>OverlappedBlocks\<close> is raised.
\<close>

theorem add_block_handle_unchecked:
  assumes "sz \<noteq> 0"
    and "RangeDict_setitem blocks a (a + sz) irsb = Overlap this_block other_block blocks'"
  shows "\<exists>i<length blocks. other_block = Stored i
         \<and> add_block RangeDict_setitem blocks a sz irsb ''handle'' (Some h)
             = Done (blocks[i := snd (h (make_item a (a + sz) irsb) (blocks ! i))])"
  using add_block_handle_eq[OF assms, of h] by blast

text \<open>The amended claim at the handler of the tests, on \<open>[10, 20)\<close> and the new \<open>[15, 25)\<close>.\<close>

theorem add_block_handle_unchecked_witness:
  "(10::int) \<noteq> 0
   \<and> RangeDict_setitem [make_item 10 20 ()] 15 (15 + 10) ()
       = Overlap (Fresh (make_item 15 25 ())) (Stored 0) [make_item 10 20 ()]
   \<and> add_block RangeDict_setitem [make_item 10 20 ()] 15 10 () ''handle'' (Some ovarlap_handler)
       = Done [make_item 10 15 ()]"
proof -
  have nz: "(10::int) \<noteq> 0" by simp
  have first: "RangeDict_setitem [make_item 10 20 ()] 15 (15 + 10) ()
       = Overlap (Fresh (make_item 15 25 ())) (Stored 0) [make_item 10 20 ()]"
    by (simp add: model_defs)
  from add_block_handle_unchecked[OF nz first, of ovarlap_handler] nz first show ?thesis
    by (simp add: ovarlap_handler_def make_item_def)
qed

text \<open>
  The claim as stated fails: on the records \<open>[0, 8)\<close> and \<open>[8, 16)\<close>, adding \<open>[4, 6)\<close>
  under handle with a handler that moves the end of the conflicting record to 12 returns
  successfully, and the stored records \<open>[0, 12)\<close> and \<open>[8, 16)\<close> intersect.
\<close>

theorem add_block_handle_no_conflict_raised:
  "add_block RangeDict_setitem [make_item 0 8 (), make_item 8 16 ()] 4 2 () ''handle''
         (Some (careless_handler 12))
     = Done [make_item 0 12 (), make_item 8 16 ()]
   \<and> \<not> pairwise_disjoint [make_item 0 12 (), make_item 8 16 ()]"
  by (simp add: model_defs careless_handler_def pairwise_disjoint_def intersects_def)

subsection \<open>The trim mode\<close>



subsection \<open>Rejection of an empty block\<close>

text \<open>
  C4, as amended: a call \<^verbatim>\<open>add_block(addr, 0, payload, mode)\<close> raises the
  \<^verbatim>\<open>ValueError\<close> of the empty block before the insertion is attempted, whatever the
  insertion would do, and leaves the sequence as it was. The guard is \<^verbatim>\<open>size == 0\<close>:
  a negative size passes it and the insertion is attempted.
\<close>

theorem add_block_zero_size:
  "add_block setitem blocks a 0 irsb overlap_mode overlap_handler
     = Failed ValueError_empty blocks"
  by (simp add: add_block_def)

text \<open>
  The claim as stated fails at size \<open>- 1\<close>: on the empty block map the call returns
  successfully and a record from 100 to 99 is stored.
\<close>

theorem add_block_negative_size_placed:
  "add_block RangeDict_setitem [] 100 (- 1) () ''trim'' None = Done [make_item 100 99 ()]"
  by (simp add: model_defs)

subsection \<open>Rejected calls leave the block map as it was\<close>

text \<open>
  C5: a call of \<^verbatim>\<open>add_block\<close> that raises the \<^verbatim>\<open>ValueError\<close> of the empty block
  (InvalidRange), \<^verbatim>\<open>OverlappedBlocks\<close> under the raise mode (Conflict), or the
  \<^verbatim>\<open>TypeError\<close> of the missing handler or the \<^verbatim>\<open>ValueError\<close> of an unknown mode
  (InvalidArgument) leaves the sequence of stored records, with their ranges and
  payloads, exactly as it was before the call.
\<close>

theorem add_block_rejection_keeps_blocks:
  assumes "add_block RangeDict_setitem blocks a sz irsb overlap_mode overlap_handler
             = Failed e blocks'"
    and "e = ValueError_empty
       \<or> (overlap_mode = ''raise''
            \<and> (\<exists>this_block other_block. e = OverlappedBlocks this_block other_block))
       \<or> e = TypeError_not_callable
       \<or> e = ValueError_unknown_mode overlap_mode"
  shows "blocks' = blocks"
  using assms(1) by (rule add_block_failure_keeps_blocks)

text \<open>The claim at a conflict under the raise mode: \<open>[15, 25)\<close> on \<open>[10, 20)\<close>.\<close>

theorem add_block_rejection_keeps_blocks_witness:
  "add_block RangeDict_setitem [make_item 10 20 ()] 15 10 () ''raise'' None
     = Failed (OverlappedBlocks (Fresh (make_item 15 25 ())) (Stored 0)) [make_item 10 20 ()]
   \<and> (''raise'' = ''raise''
        \<and> (\<exists>this_block other_block.
             OverlappedBlocks (Fresh (make_item 15 25 ())) (Stored 0)
               = (OverlappedBlocks this_block other_block :: unit error)))"
proof -
  have f: "add_block RangeDict_setitem [make_item 10 20 ()] 15 10 () ''raise'' None
     = Failed (OverlappedBlocks (Fresh (make_item 15 25 ())) (Stored 0)) [make_item 10 20 ()]"
    by (simp add: model_defs)
  have k: "OverlappedBlocks (Fresh (make_item 15 25 ())) (Stored 0) = ValueError_empty
       \<or> (''raise'' = ''raise'' \<and> (\<exists>this_block other_block.
             OverlappedBlocks (Fresh (make_item 15 25 ())) (Stored 0)
               = (OverlappedBlocks this_block other_block :: unit error)))
       \<or> OverlappedBlocks (Fresh (make_item 15 25 ())) (Stored 0) = TypeError_not_callable
       \<or> OverlappedBlocks (Fresh (make_item 15 25 ())) (Stored 0)
            = ValueError_unknown_mode ''raise''"
    by simp
  from add_block_rejection_keeps_blocks[OF f k] f show ?thesis by simp
qed

subsection \<open>One retry, one flag\<close>




subsection \<open>Trim determinism\<close>


subsection \<open>Delegation to the handler\<close>

text \<open>
  C8: under the handle mode, whenever the insertion reports an overlap between two
  blocks of which one starts at \<^verbatim>\<open>addr\<close>, the two are put in the order in which the
  first one starts at \<^verbatim>\<open>addr\<close> (they are swapped only when the block named first does
  not start there), the handler is applied once, to the two blocks in that order, and
  what \<^verbatim>\<open>add_block\<close> leaves is the sequence of the aborted insertion with each stored
  block of the two holding what that one application returned for it: nothing is
  inserted again. This holds for every insertion primitive.
\<close>

theorem add_block_handle_canonical:
  assumes "sz \<noteq> 0"
    and "setitem blocks a (a + sz) irsb = Overlap x y blocks'"
    and "addr (deref blocks' x) = a \<or> addr (deref blocks' y) = a"
  shows "\<exists>this_block other_block.
           (this_block, other_block) \<in> {(x, y), (y, x)}
         \<and> (addr (deref blocks' x) = a \<longrightarrow> this_block = x)
         \<and> addr (deref blocks' this_block) = a
         \<and> add_block setitem blocks a sz irsb ''handle'' (Some h)
             = Done (case (this_block, other_block) of
                       (Fresh b, Fresh c) \<Rightarrow> blocks'
                     | (Fresh b, Stored j) \<Rightarrow> blocks'[j := snd (h b (blocks' ! j))]
                     | (Stored i, Fresh c) \<Rightarrow> blocks'[i := fst (h (blocks' ! i) c)]
                     | (Stored i, Stored j) \<Rightarrow>
                         blocks'[i := fst (h (blocks' ! i) (blocks' ! j)),
                                 j := snd (h (blocks' ! i) (blocks' ! j))])"
proof (cases "addr (deref blocks' x) = a")
  case True
  with assms(1,2) show ?thesis
    by (intro exI[of _ x] exI[of _ y], cases x; cases y)
       (simp_all add: add_block_def call_handler_def split: prod.splits)
next
  case False
  with assms show ?thesis
    by (intro exI[of _ y] exI[of _ x], cases x; cases y)
       (simp_all add: add_block_def call_handler_def split: prod.splits)
qed

text \<open>
  The claim at the handler of the tests, for \<open>[15, 19)\<close> on \<open>[10, 20)\<close>: once on the
  modelled placement, which names the new block first (no swap), and once on a primitive
  that names the stored record first (swap). Either way the handler is given the new
  block and then the stored one, which it cuts back to \<open>[10, 15)\<close>, and the new block is
  not inserted.
\<close>

theorem add_block_handle_canonical_witness:
  "(4::int) \<noteq> 0
   \<and> RangeDict_setitem [make_item 10 20 ()] 15 (15 + 4) ()
       = Overlap (Fresh (make_item 15 19 ())) (Stored 0) [make_item 10 20 ()]
   \<and> stored_first RangeDict_setitem [make_item 10 20 ()] 15 (15 + 4) ()
       = Overlap (Stored 0) (Fresh (make_item 15 19 ())) [make_item 10 20 ()]
   \<and> addr (deref [make_item 10 20 ()] (Fresh (make_item 15 19 ()))) = 15
   \<and> addr (deref [make_item 10 20 ()] (Stored 0)) = 10
   \<and> add_block RangeDict_setitem [make_item 10 20 ()] 15 4 () ''handle''
         (Some ovarlap_handler)
       = Done [make_item 10 15 ()]
   \<and> add_block (stored_first RangeDict_setitem) [make_item 10 20 ()] 15 4 () ''handle''
         (Some ovarlap_handler)
       = Done [make_item 10 15 ()]"
proof -
  let ?new = "Fresh (make_item 15 19 ()) :: unit obj"
  let ?old = "Stored 0 :: unit obj"
  have nz: "(4::int) \<noteq> 0" by simp
  have first: "RangeDict_setitem [make_item 10 20 ()] 15 (15 + 4) ()
       = Overlap ?new ?old [make_item 10 20 ()]"
    by (simp add: model_defs)
  have first': "stored_first RangeDict_setitem [make_item 10 20 ()] 15 (15 + 4) ()
       = Overlap ?old ?new [make_item 10 20 ()]"
    by (simp add: stored_first_def model_defs)
  have ad: "addr (deref [make_item 10 20 ()] ?new) = 15"
    and ad': "addr (deref [make_item 10 20 ()] ?old) = 10"
    by (simp_all add: addr_def make_item_def)
  have d: "addr (deref [make_item 10 20 ()] ?new) = 15
             \<or> addr (deref [make_item 10 20 ()] ?old) = 15"
    and d': "addr (deref [make_item 10 20 ()] ?old) = 15
             \<or> addr (deref [make_item 10 20 ()] ?new) = 15"
    using ad by simp_all
  from add_block_handle_canonical[where setitem = RangeDict_setitem
      and h = ovarlap_handler, OF nz first d] ad ad'
  have r: "add_block RangeDict_setitem [make_item 10 20 ()] 15 4 () ''handle''
             (Some ovarlap_handler) = Done [make_item 10 15 ()]"
    by (auto simp add: ovarlap_handler_def make_item_def)
  from add_block_handle_canonical[where setitem = "stored_first RangeDict_setitem"
      and h = ovarlap_handler, OF nz first' d'] ad ad'
  have r': "add_block (stored_first RangeDict_setitem) [make_item 10 20 ()] 15 4 () ''handle''
             (Some ovarlap_handler) = Done [make_item 10 15 ()]"
    by (auto simp add: ovarlap_handler_def make_item_def)
  from nz first first' ad ad' r r' show ?thesis by blast
qed

subsection \<open>The handle mode without a handler\<close>

text \<open>
  C9, as amended: a call of \<^verbatim>\<open>add_block\<close> under the handle mode with no handler
  (\<^verbatim>\<open>None\<close>) raises the \<^verbatim>\<open>TypeError\<close> of the call of \<^verbatim>\<open>None\<close> (InvalidArgument)
  only when the size is not 0 and the insertion reports an overlap, that is when the new
  block starts below the end of the last record that starts at or before it, or ends above
  the start of the first record that starts after it; that rejection leaves the sequence
  as it was. A size of 0 is rejected as an empty block. In every other case the call
  returns successfully with the record stored, and the missing handler goes unnoticed.
\<close>

theorem add_block_handle_without_handler:
  "add_block RangeDict_setitem blocks a sz irsb ''handle'' None =
     (if sz = 0 then Failed ValueError_empty blocks
      else if (takeWhile (\<lambda>b. start b \<le> a) blocks \<noteq> []
                 \<and> a < stop (last (takeWhile (\<lambda>b. start b \<le> a) blocks)))
              \<or> (dropWhile (\<lambda>b. start b \<le> a) blocks \<noteq> []
                 \<and> start (hd (dropWhile (\<lambda>b. start b \<le> a) blocks)) < a + sz)
      then Failed TypeError_not_callable blocks
      else Done (takeWhile (\<lambda>b. start b \<le> a) blocks @ make_item a (a + sz) irsb
                   # dropWhile (\<lambda>b. start b \<le> a) blocks))"
  by (simp add: add_block_def RangeDict_setitem_eq addr_def make_item_def
      del: takeWhile_dropWhile_id)

text \<open>
  The amended claim at a conflict, \<open>[15, 25)\<close> on \<open>[10, 20)\<close>, at the record
  \<open>[10, 10)\<close> of zero length, which the new block \<open>[5, 15)\<close> ends above, and at a
  block \<open>[20, 25)\<close> that goes through.
\<close>

theorem add_block_handle_without_handler_witness:
  "add_block RangeDict_setitem [make_item 10 20 ()] 15 10 () ''handle'' None
       = Failed TypeError_not_callable [make_item 10 20 ()]
   \<and> add_block RangeDict_setitem [make_item 10 10 ()] 5 10 () ''handle'' None
       = Failed TypeError_not_callable [make_item 10 10 ()]
   \<and> add_block RangeDict_setitem [make_item 10 20 ()] 20 5 () ''handle'' None
       = Done [make_item 10 20 (), make_item 20 25 ()]"
  using add_block_handle_without_handler[of "[make_item 10 20 ()]" 15 10 "()"]
    add_block_handle_without_handler[of "[make_item 10 10 ()]" 5 10 "()"]
    add_block_handle_without_handler[of "[make_item 10 20 ()]" 20 5 "()"]
  by (simp add: make_item_def)

text \<open>
  The claim as stated fails: on the empty block map the call under the handle mode with
  no handler returns successfully and stores \<open>[10, 20)\<close>.
\<close>

theorem add_block_handle_without_handler_placed:
  "add_block RangeDict_setitem [] 10 10 () ''handle'' None = Done [make_item 10 20 ()]"
  by (simp add: model_defs)

subsection \<open>The mode is looked at only on an overlap\<close>

text \<open>
  C10, as amended: for every call of \<^verbatim>\<open>add_block\<close> with a positive size whose range
  \<open>[addr, addr + size)\<close> is disjoint from all stored records, each of them a range with
  \<open>start < stop\<close>, the call returns successfully and the record is stored with its full
  range, between the records that start at or before it and those that start after it,
  whatever the mode string is, also one that is none of \<^verbatim>\<open>'trim'\<close>, \<^verbatim>\<open>'handle'\<close>
  and \<^verbatim>\<open>'raise'\<close>, and whatever the handler is.
\<close>

theorem add_block_disjoint_any_mode:
  assumes "0 < sz"
    and "\<forall>b\<in>set blocks. start b < stop b"
    and "\<forall>b\<in>set blocks. \<not> intersects (make_item a (a + sz) irsb) b"
  shows "add_block RangeDict_setitem blocks a sz irsb overlap_mode overlap_handler
           = Done (takeWhile (\<lambda>b. start b \<le> a) blocks
                   @ make_item a (a + sz) irsb # dropWhile (\<lambda>b. start b \<le> a) blocks)"
proof -
  let ?P = "\<lambda>b. start b \<le> a"
  let ?ls = "takeWhile ?P blocks" and ?rs = "dropWhile ?P blocks"
  let ?t = "make_item a (a + sz) irsb"
  have t: "start ?t = a" "stop ?t = a + sz" by (simp_all add: make_item_def)
  have nl: "\<not> (?ls \<noteq> [] \<and> a < stop (last ?ls))"
  proof
    assume l: "?ls \<noteq> [] \<and> a < stop (last ?ls)"
    then have "last ?ls \<in> set ?ls" by simp
    then have m: "last ?ls \<in> set blocks" and le: "start (last ?ls) \<le> a"
      by (auto dest: set_takeWhileD)
    from m assms(3) have "\<not> intersects ?t (last ?ls)" by simp
    with le l assms(1) t show False by (simp add: intersects_def)
  qed
  have nr: "\<not> (?rs \<noteq> [] \<and> start (hd ?rs) < a + sz)"
  proof
    assume r: "?rs \<noteq> [] \<and> start (hd ?rs) < a + sz"
    then have "hd ?rs \<in> set ?rs" by simp
    then have m: "hd ?rs \<in> set blocks" by (rule set_dropWhileD)
    from r have gt: "a < start (hd ?rs)" by (metis hd_dropWhile not_le)
    from m assms(2,3) have "start (hd ?rs) < stop (hd ?rs)" and "\<not> intersects ?t (hd ?rs)"
      by simp_all
    with gt r t show False by (simp add: intersects_def)
  qed
  have "RangeDict_setitem blocks a (a + sz) irsb = Placed (?ls @ ?t # ?rs)"
    by (subst RangeDict_setitem_eq) (simp only: nl nr if_False)
  with assms(1) show ?thesis by (simp add: add_block_def)
qed

text \<open>The amended claim at the mode \<^verbatim>\<open>'bogus'\<close>: \<open>[22, 27)\<close> between \<open>[10, 20)\<close> and \<open>[30, 40)\<close>.\<close>

theorem add_block_disjoint_any_mode_witness:
  "(0::int) < 5
   \<and> start (make_item 10 20 ()) < stop (make_item 10 20 ())
   \<and> start (make_item 30 40 ()) < stop (make_item 30 40 ())
   \<and> \<not> intersects (make_item 22 (22 + 5) ()) (make_item 10 20 ())
   \<and> \<not> intersects (make_item 22 (22 + 5) ()) (make_item 30 40 ())
   \<and> add_block RangeDict_setitem [make_item 10 20 (), make_item 30 40 ()] 22 5 () ''bogus'' None
       = Done [make_item 10 20 (), make_item 22 27 (), make_item 30 40 ()]"
proof -
  have p: "(0::int) < 5" by simp
  have wf: "\<forall>b\<in>set [make_item 10 20 (), make_item 30 40 ()]. start b < stop b"
    by (simp add: make_item_def)
  have d: "\<forall>b\<in>set [make_item 10 20 (), make_item 30 40 ()].
             \<not> intersects (make_item 22 (22 + 5) ()) b"
    by (simp add: make_item_def intersects_def)
  from add_block_disjoint_any_mode[OF p wf d, of "''bogus''" None] p wf d show ?thesis
    by (simp add: make_item_def)
qed

text \<open>
  The claim as stated fails. A call of size 0 is rejected though its range is empty. And
  the record \<open>[10, 10)\<close>, which two successful calls with the handler of the tests leave
  behind, covers no address, so the range \<open>[5, 15)\<close> intersects no stored record; yet
  \<^verbatim>\<open>_trim_right\<close> raises for it, and with the mode \<^verbatim>\<open>'bogus'\<close> the call fails with
  the \<^verbatim>\<open>ValueError\<close> of the unknown mode.
\<close>

theorem add_block_disjoint_unknown_mode_rejected:
  "add_block RangeDict_setitem [] 5 0 () ''bogus'' None = Failed ValueError_empty []
   \<and> add_blocks [Call 10 10 () ''trim'' None,
                 Call 10 5 () ''handle'' (Some ovarlap_handler)] []
       = Done [make_item 10 10 ()]
   \<and> \<not> intersects (make_item 5 15 ()) (make_item 10 10 ())
   \<and> add_block RangeDict_setitem [make_item 10 10 ()] 5 10 () ''bogus'' None
       = Failed (ValueError_unknown_mode ''bogus'') [make_item 10 10 ()]"
  by (simp add: model_defs ovarlap_handler_def intersects_def)

end
